theory Spec2Isabelle
  imports Main
begin

section \<open>The packaging manifest \<open>runtimes/mlflow/setup.py\<close>\<close>

text \<open>
  The manifest computes two paths from its own location, reads the package version out of
  \<open>mlserver_mlflow/version.py\<close> by executing that file into a fresh dictionary, reads
  \<open>README.md\<close>, and hands the assembled keyword arguments to \<open>setuptools.setup\<close>.
  The embedding follows the file top to bottom. Everything the file takes from the Python
  library (\<open>os.path\<close>, \<open>str.replace\<close>, \<open>open\<close>, \<open>read\<close>, \<open>exec\<close>) is modelled
  after the library's documented behaviour, on POSIX paths and Python 3.
\<close>

subsection \<open>Values, exceptions and the outside world\<close>

type_synonym path = string

text \<open>
  The objects that occur below. \<open>PyBuiltins\<close> stands for the dictionary of builtins that
  \<open>exec\<close> stores under \<open>__builtins__\<close>, \<open>PyModule\<close> for an imported module.
\<close>

datatype py_value = PyStr string | PyInt int | PyBool bool | PyNone | PyBuiltins | PyModule string

text \<open>
  Exceptions, by class. \<open>NotModelled\<close> is not an exception of Python: it is the answer
  of the model of \<open>exec\<close> below where that model does not determine what Python does.
  No statement of this theory draws a conclusion about Python from it.
\<close>

datatype py_error =
  FileNotFoundError path | KeyError string | NameError string | TypeError | AttributeError
  | SyntaxError | NotModelled

type_synonym namespace = "string \<rightharpoonup> py_value"

text \<open>The keyword arguments of the call at the bottom of the file, in the file's order.\<close>

record PackageMetadata =
  name :: string
  version :: py_value
  url :: string
  author :: string
  author_email :: string
  description :: string
  packages :: "string list"
  install_requires :: "string list"
  long_description :: string
  long_description_content_type :: string
  license :: string

text \<open>
  The state outside the script: the text stored in each regular file (by the path it is
  opened with), the environment of the process (\<open>os.environ\<close>), the number of file
  objects currently open, and the calls the build subsystem has received so far.
\<close>

record world =
  files :: "path \<rightharpoonup> string"
  environ :: "string \<rightharpoonup> string"
  open_handles :: nat
  registered :: "PackageMetadata list"

type_synonym 'a result = "(py_error + 'a) \<times> world"

text \<open>
  Executing source text in a dictionary of globals: the text, the dictionary on entry and
  the world give the dictionary on exit (or the exception) and the world left behind.
\<close>

type_synonym exec_fn = "string \<Rightarrow> namespace \<Rightarrow> world \<Rightarrow> namespace result"

subsection \<open>Library functions the script calls\<close>

abbreviation LF :: char where "LF \<equiv> CHR 0x0A"
abbreviation CR :: char where "CR \<equiv> CHR 0x0D"
abbreviation sep :: char where "sep \<equiv> CHR ''/''"

text \<open>
  \<open>posixpath.dirname\<close>: everything up to and including the last slash, with trailing
  slashes stripped unless the head consists of slashes only.
\<close>

definition os_path_dirname :: "path \<Rightarrow> path" where
  "os_path_dirname p =
     (let head = rev (dropWhile (\<lambda>c. c \<noteq> sep) (rev p))
      in if head \<noteq> [] \<and> \<not> list_all (\<lambda>c. c = sep) head
         then rev (dropWhile (\<lambda>c. c = sep) (rev head))
         else head)"

text \<open>\<open>posixpath.join\<close> on two components.\<close>

definition os_path_join :: "path \<Rightarrow> path \<Rightarrow> path" where
  "os_path_join a b =
     (if b \<noteq> [] \<and> hd b = sep then b
      else if a = [] \<or> last a = sep then a @ b
      else a @ sep # b)"

text \<open>
  \<open>str.replace(old, new)\<close>: every non-overlapping occurrence of \<open>old\<close>, leftmost first.
  An empty \<open>old\<close> matches before every character and at the end.
\<close>

function str_replace :: "string \<Rightarrow> string \<Rightarrow> string \<Rightarrow> string" where
  "str_replace old new s =
     (if old = [] then new @ concat (map (\<lambda>c. c # new) s)
      else if s = [] then []
      else if take (length old) s = old
        then new @ str_replace old new (drop (length old) s)
        else hd s # str_replace old new (tl s))"
  by pat_completeness auto
termination
  by (relation "measure (\<lambda>(old, new, s). length s)") auto

declare str_replace.simps [simp del]

text \<open>
  A file opened with \<open>open(path)\<close> is a text stream in universal-newlines mode
  (\<open>newline=None\<close>): on reading, \<open>\r\n\<close> and a lone \<open>\r\<close> both arrive as \<open>\n\<close>.
\<close>

fun universal_newlines :: "string \<Rightarrow> string" where
  "universal_newlines [] = []"
| "universal_newlines [c] = (if c = CR then [LF] else [c])"
| "universal_newlines (c # d # ds) =
     (if c = CR \<and> d = LF then LF # universal_newlines ds
      else if c = CR then LF # universal_newlines (d # ds)
      else c # universal_newlines (d # ds))"

text \<open>
  A file object: the path it was opened with and the text it will deliver. \<open>open\<close> on
  a path that holds no file raises \<open>FileNotFoundError\<close>; directories, permissions and
  undecodable bytes are outside the model. Both loaders read the whole file right after
  opening it, so the file object carries the text found at that moment.
\<close>

datatype textio = TextIO path string

definition py_open :: "path \<Rightarrow> world \<Rightarrow> textio result" where
  "py_open p w =
     (case files w p of
        None \<Rightarrow> (Inl (FileNotFoundError p), w)
      | Some s \<Rightarrow> (Inr (TextIO p s), w\<lparr>open_handles := Suc (open_handles w)\<rparr>))"

fun py_read :: "textio \<Rightarrow> string" where
  "py_read (TextIO p s) = universal_newlines s"

definition py_close :: "textio \<Rightarrow> world \<Rightarrow> world" where
  "py_close fp w = w\<lparr>open_handles := open_handles w - 1\<rparr>"

text \<open>
  \<open>with open(p) as fp: body\<close>. A failing \<open>open\<close> raises before the block is entered;
  once entered, the file object is closed however the block is left.
\<close>

definition with_open :: "path \<Rightarrow> (textio \<Rightarrow> world \<Rightarrow> 'a result) \<Rightarrow> world \<Rightarrow> 'a result" where
  "with_open p body w =
     (case py_open p w of
        (Inl e, w1) \<Rightarrow> (Inl e, w1)
      | (Inr fp, w1) \<Rightarrow> (case body fp w1 of (r, w2) \<Rightarrow> (r, py_close fp w2)))"

text \<open>\<open>d[k]\<close> on a dictionary.\<close>

definition getitem :: "namespace \<Rightarrow> string \<Rightarrow> py_error + py_value" where
  "getitem d k = (case d k of None \<Rightarrow> Inl (KeyError k) | Some v \<Rightarrow> Inr v)"

subsection \<open>Module constants\<close>

text \<open>The parameter \<open>file\<close> is the script's \<open>__file__\<close>.\<close>

definition ROOT_PATH :: "path \<Rightarrow> path" where
  "ROOT_PATH file = os_path_dirname file"

definition PKG_NAME :: string where
  "PKG_NAME = ''mlserver-mlflow''"

definition PKG_PATH :: "path \<Rightarrow> path" where
  "PKG_PATH file = os_path_join (ROOT_PATH file) (str_replace ''-'' ''_'' PKG_NAME)"

subsection \<open>The two loaders\<close>

text \<open>
  \<open>_load_version\<close> (the leading underscore is dropped). \<open>load_version_from\<close> is its body
  with the first assignment to the local \<open>version\<close> left open; the function of the
  source starts from the empty string.
\<close>

definition load_version_from :: "py_value \<Rightarrow> exec_fn \<Rightarrow> path \<Rightarrow> world \<Rightarrow> py_value result" where
  "load_version_from version0 ex file w =
     (let version = version0;
          version_path = os_path_join (PKG_PATH file) ''version.py''
      in with_open version_path
           (\<lambda>fp w1.
              let version_module = Map.empty
              in case ex (py_read fp) version_module w1 of
                   (Inl e, w2) \<Rightarrow> (Inl e, w2)
                 | (Inr version_module, w2) \<Rightarrow>
                     (case getitem version_module ''__version__'' of
                        Inl e \<Rightarrow> (Inl e, w2)
                      | Inr v \<Rightarrow> (let version = v in (Inr version, w2))))
           w)"

definition load_version :: "exec_fn \<Rightarrow> path \<Rightarrow> world \<Rightarrow> py_value result" where
  "load_version = load_version_from (PyStr [])"

definition load_description :: "path \<Rightarrow> world \<Rightarrow> string result" where
  "load_description file w =
     (let readme_path = os_path_join (ROOT_PATH file) ''README.md''
      in with_open readme_path (\<lambda>fp w1. (Inr (py_read fp), w1)) w)"


subsection \<open>Executing a version file\<close>

text \<open>
  \<open>load_version\<close> takes \<open>exec\<close> as a parameter, and the general statements below hold
  for every \<open>exec_fn\<close>. For the concrete trees, \<open>py_exec\<close> models
  \<open>exec(source, globals)\<close> on a fragment of Python: one simple statement per line, with
  blank lines and comments, each statement one of

  \<^item> \<open>NAME = literal\<close>,
  \<^item> \<open>import os\<close>,
  \<^item> \<open>NAME = os.environ["KEY"]\<close>,
  \<^item> \<open>open("PATH", "w").close()\<close>.

  Python executes far more than this. On text outside the fragment \<open>py_exec\<close> answers
  \<open>NotModelled\<close>, and so it does when a statement of the fragment depends on something
  the world does not record. Text is a list of 8-bit characters; only ASCII characters
  have a meaning to the tokenizer.
\<close>

abbreviation dq :: char where "dq \<equiv> CHR 0x22"
abbreviation sq :: char where "sq \<equiv> CHR 0x27"
abbreviation backslash :: char where "backslash \<equiv> CHR 0x5C"
abbreviation hash :: char where "hash \<equiv> CHR ''#''"
abbreviation NUL :: char where "NUL \<equiv> CHR 0x00"

definition is_space :: "char \<Rightarrow> bool" where
  "is_space c = (c = CHR '' '' \<or> c = CHR 0x09)"

definition is_digit :: "char \<Rightarrow> bool" where
  "is_digit c = (let n = (of_char c :: nat) in 48 \<le> n \<and> n \<le> 57)"

definition is_ident_start :: "char \<Rightarrow> bool" where
  "is_ident_start c =
     (let n = (of_char c :: nat)
      in (97 \<le> n \<and> n \<le> 122) \<or> (65 \<le> n \<and> n \<le> 90) \<or> c = CHR ''_'')"

definition is_ident_char :: "char \<Rightarrow> bool" where
  "is_ident_char c = (is_ident_start c \<or> is_digit c)"

definition is_op :: "char \<Rightarrow> bool" where
  "is_op c =
     (c = CHR ''='' \<or> c = CHR ''('' \<or> c = CHR '')'' \<or> c = CHR '','' \<or> c = CHR ''.'' \<or>
      c = CHR ''['' \<or> c = CHR '']'')"

datatype token = Name string | Str string | Num string | Op char

datatype mode = Idle | InName string | InNum string | InStr char string | InComment

text \<open>
  The tokenizer reads one line, character by character. A string literal is delimited by
  one quote character on each side and holds no backslash (no escape sequences in the
  fragment); a comment runs to the end of the line. \<open>idle_step\<close> is the step between
  tokens; \<open>step\<close> gives the next mode and the tokens completed by the character;
  \<open>finish\<close> closes the line.
\<close>

definition idle_step :: "char \<Rightarrow> (mode \<times> token list) option" where
  "idle_step c =
     (if is_space c then Some (Idle, [])
      else if c = hash then Some (InComment, [])
      else if is_ident_start c then Some (InName [c], [])
      else if is_digit c then Some (InNum [c], [])
      else if c = dq \<or> c = sq then Some (InStr c [], [])
      else if is_op c then Some (Idle, [Op c])
      else None)"

fun step :: "mode \<Rightarrow> char \<Rightarrow> (mode \<times> token list) option" where
  "step Idle c = idle_step c"
| "step InComment c = Some (InComment, [])"
| "step (InName a) c =
     (if is_ident_char c then Some (InName (a @ [c]), [])
      else map_option (\<lambda>(m, ts). (m, Name a # ts)) (idle_step c))"
| "step (InNum a) c =
     (if is_digit c then Some (InNum (a @ [c]), [])
      else map_option (\<lambda>(m, ts). (m, Num a # ts)) (idle_step c))"
| "step (InStr q a) c =
     (if c = q then Some (Idle, [Str a])
      else if c = backslash then None
      else Some (InStr q (a @ [c]), []))"

fun finish :: "mode \<Rightarrow> token list option" where
  "finish Idle = Some []"
| "finish InComment = Some []"
| "finish (InName a) = Some [Name a]"
| "finish (InNum a) = Some [Num a]"
| "finish (InStr q a) = None"

fun tokenize :: "mode \<Rightarrow> string \<Rightarrow> token list option" where
  "tokenize m [] = finish m"
| "tokenize m (c # cs) =
     (case step m c of
        None \<Rightarrow> None
      | Some (m', ts) \<Rightarrow> map_option (\<lambda>r. ts @ r) (tokenize m' cs))"

text \<open>
  Names the fragment does not assign to: the keywords of Python 3 and \<open>__debug__\<close>,
  which cannot be assigned to; \<open>__peg_parser__\<close>, which Python 3.9 refuses; and
  \<open>__builtins__\<close>.
\<close>

definition reserved :: "string list" where
  "reserved =
     [''False'', ''None'', ''True'', ''and'', ''as'', ''assert'', ''async'', ''await'',
      ''break'', ''class'', ''continue'', ''def'', ''del'', ''elif'', ''else'', ''except'',
      ''finally'', ''for'', ''from'', ''global'', ''if'', ''import'', ''in'', ''is'',
      ''lambda'', ''nonlocal'', ''not'', ''or'', ''pass'', ''raise'', ''return'', ''try'',
      ''while'', ''with'', ''yield'', ''__debug__'', ''__peg_parser__'', ''__builtins__'']"

definition digit_val :: "char \<Rightarrow> int" where
  "digit_val c = int (of_char c) - 48"

text \<open>
  The literals of the fragment: a string, a decimal integer without a leading zero and of
  at most 640 digits (the compiler may refuse a longer one), and the three constants.
\<close>

fun literal :: "token \<Rightarrow> py_value option" where
  "literal (Str s) = Some (PyStr s)"
| "literal (Num ds) =
     (if (ds = ''0'' \<or> (ds \<noteq> [] \<and> hd ds \<noteq> CHR ''0'')) \<and> length ds \<le> 640
      then Some (PyInt (foldl (\<lambda>n c. 10 * n + digit_val c) 0 ds))
      else None)"
| "literal (Name n) =
     (if n = ''None'' then Some PyNone
      else if n = ''True'' then Some (PyBool True)
      else if n = ''False'' then Some (PyBool False)
      else None)"
| "literal (Op c) = None"

text \<open>
  The statements of the fragment: \<open>Assign n v\<close> is \<open>n = v\<close> for a literal \<open>v\<close>,
  \<open>AssignEnviron n k\<close> is \<open>n = os.environ["k"]\<close>, \<open>ImportOs\<close> is \<open>import os\<close>, and
  \<open>Truncate p\<close> is \<open>open("p", "w").close()\<close>.
\<close>

datatype stmt = Assign string py_value | AssignEnviron string string | ImportOs | Truncate path

definition call_suffix :: "token list" where
  "call_suffix =
     [Op (CHR '',''), Str ''w'', Op (CHR '')''), Op (CHR ''.''), Name ''close'',
      Op (CHR ''(''), Op (CHR '')'')]"

definition environ_prefix :: "token list" where
  "environ_prefix = [Name ''os'', Op (CHR ''.''), Name ''environ'', Op (CHR ''['')]"

fun str_literal :: "token \<Rightarrow> string option" where
  "str_literal (Str s) = Some s"
| "str_literal t = None"

text \<open>One statement from the tokens of a line.\<close>

fun parse_tokens :: "token list \<Rightarrow> stmt option" where
  "parse_tokens [Name a, Name b] = (if a = ''import'' \<and> b = ''os'' then Some ImportOs else None)"
| "parse_tokens (Name n # Op e # t # rest) =
     (if e = CHR ''=''
      then (if n \<in> set reserved then None
            else if rest = [] then map_option (Assign n) (literal t)
            else if t # take 3 rest = environ_prefix \<and> drop 4 rest = [Op (CHR '']'')]
              then map_option (AssignEnviron n) (str_literal (rest ! 3))
              else None)
      else if n = ''open'' \<and> e = CHR ''('' \<and> rest = call_suffix
        then map_option Truncate (str_literal t)
        else None)"
| "parse_tokens ts = None"

text \<open>
  A line of blanks and comment holds no statement, whatever its indentation; a statement
  must start in the first column.
\<close>

definition parse_line :: "string \<Rightarrow> stmt list option" where
  "parse_line l =
     (case tokenize Idle l of
        None \<Rightarrow> None
      | Some [] \<Rightarrow> Some []
      | Some ts \<Rightarrow> (if is_space (hd l) then None else map_option (\<lambda>st. [st]) (parse_tokens ts)))"

fun split_lines :: "string \<Rightarrow> string list" where
  "split_lines [] = [[]]"
| "split_lines (c # cs) =
     (if c = LF then [] # split_lines cs
      else (case split_lines cs of [] \<Rightarrow> [[c]] | l # ls \<Rightarrow> (c # l) # ls))"

fun parse_lines :: "string list \<Rightarrow> stmt list option" where
  "parse_lines [] = Some []"
| "parse_lines (l # ls) =
     (case parse_line l of
        None \<Rightarrow> None
      | Some a \<Rightarrow> (case parse_lines ls of None \<Rightarrow> None | Some b \<Rightarrow> Some (a @ b)))"

text \<open>
  The statements of a text of the fragment, \<open>None\<close> for any other text. The compiler
  reads \<open>\r\n\<close> and \<open>\r\<close> as line ends; text with a null character is left outside
  the fragment.
\<close>

definition parse_module :: "string \<Rightarrow> stmt list option" where
  "parse_module src =
     (if NUL \<in> set src then None else parse_lines (split_lines (universal_newlines src)))"

text \<open>
  One statement, in the globals \<open>g\<close> (at module level the locals are the globals, and a
  name not found there is looked up in the builtins).

  \<^item> An assignment of a literal stores into the globals.
  \<^item> \<open>import os\<close> binds \<open>os\<close> to the module.
  \<^item> \<open>n = os.environ["k"]\<close> looks \<open>os\<close> up: unbound, it is a \<open>NameError\<close> (the
    builtins have no such name); bound to the module, the environment is read, a missing
    key raising \<open>KeyError\<close>; bound to an object of the fragment, which has no attribute
    \<open>environ\<close>, it is an \<open>AttributeError\<close>.
  \<^item> \<open>open("p", "w").close()\<close> looks \<open>open\<close> up: bound in the globals, it is an
    object of the fragment, none of which can be called (\<open>TypeError\<close>). Otherwise it is
    the builtin: the empty path raises \<open>FileNotFoundError\<close>; a stored file is opened
    for writing, which empties it, and closed again. Whether a path that stores no file
    can be created depends on directories, which the world does not record.
\<close>

fun exec_stmt :: "stmt \<Rightarrow> namespace \<Rightarrow> world \<Rightarrow> namespace result" where
  "exec_stmt (Assign n v) g w = (Inr (g(n \<mapsto> v)), w)"
| "exec_stmt ImportOs g w = (Inr (g(''os'' \<mapsto> PyModule ''os'')), w)"
| "exec_stmt (AssignEnviron n k) g w =
     (case g ''os'' of
        None \<Rightarrow> (Inl (NameError ''os''), w)
      | Some (PyModule m) \<Rightarrow>
          (if m = ''os''
           then (case environ w k of
                   None \<Rightarrow> (Inl (KeyError k), w)
                 | Some v \<Rightarrow> (Inr (g(n \<mapsto> PyStr v)), w))
           else (Inl NotModelled, w))
      | Some other \<Rightarrow> (Inl AttributeError, w))"
| "exec_stmt (Truncate p) g w =
     (case g ''open'' of
        Some f \<Rightarrow> (Inl TypeError, w)
      | None \<Rightarrow>
          (if p = [] then (Inl (FileNotFoundError p), w)
           else (case files w p of
                   None \<Rightarrow> (Inl NotModelled, w)
                 | Some s \<Rightarrow> (Inr g, w\<lparr>files := (files w)(p \<mapsto> [])\<rparr>))))"

text \<open>
  Statements run in order; the first exception ends the run, and what was done before it
  stays done.
\<close>

fun exec_stmts :: "stmt list \<Rightarrow> namespace \<Rightarrow> world \<Rightarrow> namespace result" where
  "exec_stmts [] g w = (Inr g, w)"
| "exec_stmts (st # sts) g w =
     (case exec_stmt st g w of
        (Inl e, w1) \<Rightarrow> (Inl e, w1)
      | (Inr g1, w1) \<Rightarrow> exec_stmts sts g1 w1)"

text \<open>
  The text is compiled as a whole before any of it runs. \<open>exec\<close> stores the builtins
  under \<open>__builtins__\<close> unless the dictionary has that key; a dictionary that arrives
  with other builtins of its own is outside the model.
\<close>

definition py_exec :: exec_fn where
  "py_exec src globals w =
     (case parse_module src of
        None \<Rightarrow> (Inl NotModelled, w)
      | Some stmts \<Rightarrow>
          (case globals ''__builtins__'' of
             None \<Rightarrow> exec_stmts stmts (globals(''__builtins__'' \<mapsto> PyBuiltins)) w
           | Some b \<Rightarrow>
               (if b = PyBuiltins then exec_stmts stmts globals w else (Inl NotModelled, w))))"

subsection \<open>The call at the bottom of the file\<close>

text \<open>
  \<open>setuptools.setup\<close> is the build subsystem: the model records the keyword arguments
  it receives. \<open>find_packages()\<close> is a parameter, any function of the stored files.
\<close>

definition setuptools_setup :: "PackageMetadata \<Rightarrow> world \<Rightarrow> unit result" where
  "setuptools_setup md w = (Inr (), w\<lparr>registered := registered w @ [md]\<rparr>)"

text \<open>
  The keyword arguments are evaluated left to right: \<open>_load_version()\<close>, then
  \<open>find_packages()\<close>, then \<open>_load_description()\<close>. An exception in any of them leaves
  the argument list unfinished.
\<close>

definition assemble ::
  "exec_fn \<Rightarrow> ((path \<rightharpoonup> string) \<Rightarrow> string list) \<Rightarrow> path \<Rightarrow> world \<Rightarrow> PackageMetadata result" where
  "assemble ex find_packages file w =
     (case load_version ex file w of
        (Inl e, w1) \<Rightarrow> (Inl e, w1)
      | (Inr v, w1) \<Rightarrow>
          (let pkgs = find_packages (files w1)
           in case load_description file w1 of
                (Inl e, w2) \<Rightarrow> (Inl e, w2)
              | (Inr d, w2) \<Rightarrow>
                  (Inr \<lparr>name = PKG_NAME,
                        version = v,
                        url = ''https://github.com/SeldonIO/MLServer.git'',
                        author = ''Seldon Technologies Ltd.'',
                        author_email = ''hello@seldon.io'',
                        description = ''MLflow runtime for MLServer'',
                        packages = pkgs,
                        install_requires = [''mlserver'', ''mlflow''],
                        long_description = d,
                        long_description_content_type = ''text/markdown'',
                        license = ''Apache 2.0''\<rparr>, w2)))"

text \<open>The script: assemble the arguments, then call \<open>setup\<close>.\<close>

definition setup_py ::
  "exec_fn \<Rightarrow> ((path \<rightharpoonup> string) \<Rightarrow> string list) \<Rightarrow> path \<Rightarrow> world \<Rightarrow> unit result" where
  "setup_py ex find_packages file w =
     (case assemble ex find_packages file w of
        (Inl e, w1) \<Rightarrow> (Inl e, w1)
      | (Inr md, w1) \<Rightarrow> setuptools_setup md w1)"

subsection \<open>Notions used in the statements\<close>

text \<open>The two paths the loaders open.\<close>

abbreviation version_file :: "path \<Rightarrow> path" where
  "version_file file \<equiv> os_path_join (PKG_PATH file) ''version.py''"
abbreviation readme_file :: "path \<Rightarrow> path" where
  "readme_file file \<equiv> os_path_join (ROOT_PATH file) ''README.md''"

text \<open>The world in which the body of a \<open>with open(...)\<close> block starts.\<close>

abbreviation opened :: "world \<Rightarrow> world" where
  "opened w \<equiv> w\<lparr>open_handles := Suc (open_handles w)\<rparr>"


text \<open>
  The example tree of the specification: a root \<open>/pkg\<close> holding \<open>setup.py\<close>,
  \<open>mlserver_mlflow/version.py\<close> and \<open>README.md\<close>, with an empty environment; and a
  world with no files. \<open>no_packages\<close> is a \<open>find_packages\<close> that finds nothing.
\<close>

definition quoted :: "string \<Rightarrow> string" where
  "quoted s = dq # s @ [dq]"

definition pkg_world :: "string \<Rightarrow> string \<Rightarrow> world" where
  "pkg_world version_text readme_text =
     \<lparr>files = [''/pkg/mlserver_mlflow/version.py'' \<mapsto> version_text,
               ''/pkg/README.md'' \<mapsto> readme_text],
      environ = Map.empty, open_handles = 0, registered = []\<rparr>"

definition bare_world :: world where
  "bare_world = \<lparr>files = Map.empty, environ = Map.empty, open_handles = 0, registered = []\<rparr>"

definition without_readme :: "world \<Rightarrow> world" where
  "without_readme w = w\<lparr>files := (files w)(''/pkg/README.md'' := None)\<rparr>"


section \<open>Properties\<close>

subsection \<open>Reading and executing\<close>

lemma universal_newlines_id: "CR \<notin> set s \<Longrightarrow> universal_newlines s = s"
  by (induction s rule: universal_newlines.induct) auto

lemma universal_newlines_no_CR: "CR \<notin> set (universal_newlines s)"
  by (induction s rule: universal_newlines.induct) auto

lemma universal_newlines_idem: "universal_newlines (universal_newlines s) = universal_newlines s"
  by (rule universal_newlines_id) (rule universal_newlines_no_CR)

lemma universal_newlines_NUL: "NUL \<in> set (universal_newlines s) \<longleftrightarrow> NUL \<in> set s"
  by (induction s rule: universal_newlines.induct) auto

lemma parse_module_read: "parse_module (universal_newlines s) = parse_module s"
  by (simp add: parse_module_def universal_newlines_idem universal_newlines_NUL)

lemma world_handles_same [simp]: "w\<lparr>open_handles := open_handles w\<rparr> = w"
  by simp

lemma with_open_missing:
  "files w p = None \<Longrightarrow> with_open p body w = (Inl (FileNotFoundError p), w)"
  by (simp add: with_open_def py_open_def)

lemma with_open_found:
  "files w p = Some s \<Longrightarrow>
   with_open p body w =
     (case body (TextIO p s) (opened w) of (r, w2) \<Rightarrow> (r, py_close (TextIO p s) w2))"
  by (simp add: with_open_def py_open_def)

lemma load_version_from_missing:
  "files w (version_file file) = None \<Longrightarrow>
   load_version_from d ex file w = (Inl (FileNotFoundError (version_file file)), w)"
  by (simp add: load_version_from_def with_open_missing)

lemma load_version_from_found:
  "files w (version_file file) = Some s \<Longrightarrow>
   load_version_from d ex file w =
     (case ex (universal_newlines s) Map.empty (opened w) of
        (Inl e, w2) \<Rightarrow> (Inl e, w2\<lparr>open_handles := open_handles w2 - 1\<rparr>)
      | (Inr g, w2) \<Rightarrow>
          (case g ''__version__'' of
             None \<Rightarrow> (Inl (KeyError ''__version__''), w2\<lparr>open_handles := open_handles w2 - 1\<rparr>)
           | Some v \<Rightarrow> (Inr v, w2\<lparr>open_handles := open_handles w2 - 1\<rparr>)))"
  by (simp add: load_version_from_def with_open_found getitem_def py_close_def
      split: prod.splits sum.splits option.splits)

lemma load_version_found:
  assumes "files w (version_file file) = Some s"
    and "ex (universal_newlines s) Map.empty (opened w) = (r, w2)"
  shows "load_version ex file w =
     ((case r of Inl e \<Rightarrow> Inl e | Inr g \<Rightarrow> getitem g ''__version__''),
      py_close (TextIO (version_file file) s) w2)"
  unfolding load_version_def
  using assms(2)
  by (simp add: load_version_from_found [OF assms(1)] getitem_def py_close_def
      split: sum.splits option.splits)

lemma py_exec_parsed:
  "parse_module src = Some ss \<Longrightarrow>
   py_exec src Map.empty w = exec_stmts ss [''__builtins__'' \<mapsto> PyBuiltins] w"
  by (simp add: py_exec_def)

lemma load_version_py_exec:
  assumes "files w (version_file file) = Some s" and "parse_module s = Some ss"
  shows "load_version py_exec file w =
     (case exec_stmts ss [''__builtins__'' \<mapsto> PyBuiltins] (opened w) of
        (r, w2) \<Rightarrow>
          ((case r of Inl e \<Rightarrow> Inl e | Inr g \<Rightarrow> getitem g ''__version__''),
           w2\<lparr>open_handles := open_handles w2 - 1\<rparr>))"
proof -
  have p: "parse_module (universal_newlines s) = Some ss"
    using assms(2) by (simp add: parse_module_read)
  obtain r w2 where e: "exec_stmts ss [''__builtins__'' \<mapsto> PyBuiltins] (opened w) = (r, w2)"
    by (cases "exec_stmts ss [''__builtins__'' \<mapsto> PyBuiltins] (opened w)") simp
  have "py_exec (universal_newlines s) Map.empty (opened w) = (r, w2)"
    by (simp add: py_exec_parsed [OF p] e)
  from load_version_found [where ex = py_exec, OF assms(1) this] show ?thesis
    by (simp add: e py_close_def)
qed

lemma load_description_found:
  "files w (readme_file file) = Some s \<Longrightarrow>
   load_description file w = (Inr (universal_newlines s), w)"
  by (simp add: load_description_def with_open_found py_close_def)

lemma load_description_missing:
  "files w (readme_file file) = None \<Longrightarrow>
   load_description file w = (Inl (FileNotFoundError (readme_file file)), w)"
  by (simp add: load_description_def with_open_missing)

lemma load_description_failure_world:
  "fst (load_description file w) = Inl e \<Longrightarrow> load_description file w = (Inl e, w)"
  by (cases "files w (readme_file file)")
    (simp_all add: load_description_missing load_description_found)


subsection \<open>The usual version file\<close>

text \<open>
  A version file is usually the single line \<open>__version__ = "X"\<close>. Whatever the
  characters of \<open>X\<close>, short of a quote, a backslash, a line end or a null character,
  the tokenizer delivers them untouched and the resolver returns them.
\<close>

lemma tokenize_string_body:
  "q \<notin> set X \<Longrightarrow> backslash \<notin> set X \<Longrightarrow>
   tokenize (InStr q a) (X @ q # rest) = map_option (Cons (Str (a @ X))) (tokenize Idle rest)"
proof (induction X arbitrary: a)
  case Nil
  show ?case by (cases "tokenize Idle rest") simp_all
next
  case (Cons c X)
  then show ?case by (cases "tokenize Idle rest") auto
qed

lemma split_lines_nonempty: "split_lines s \<noteq> []"
  by (induction s) (auto split: list.splits)

lemma split_lines_no_LF: "LF \<notin> set X \<Longrightarrow> split_lines X = [X]"
  by (induction X) (auto split: list.splits)

lemma split_lines_line: "LF \<notin> set X \<Longrightarrow> split_lines (X @ [LF]) = [X, []]"
  by (induction X) (auto split: list.splits)

lemma tokenize_version_line:
  assumes "dq \<notin> set X" and "backslash \<notin> set X"
  shows "tokenize Idle (''__version__ = '' @ quoted X) =
     Some [Name ''__version__'', Op (CHR ''=''), Str X]"
  using tokenize_string_body [OF assms, of "[]" "[]"]
  by (simp add: idle_step_def is_space_def is_digit_def is_ident_start_def is_ident_char_def
      is_op_def quoted_def)

lemma parse_line_version_line:
  assumes "dq \<notin> set X" and "backslash \<notin> set X"
  shows "parse_line (''__version__ = '' @ quoted X) = Some [Assign ''__version__'' (PyStr X)]"
  using tokenize_version_line [OF assms]
  by (simp add: parse_line_def is_space_def reserved_def)

lemma parse_module_version_line:
  assumes "dq \<notin> set X" and "backslash \<notin> set X"
    and "LF \<notin> set X" and "CR \<notin> set X" and "NUL \<notin> set X"
  shows "parse_module (''__version__ = '' @ quoted X @ [LF]) =
     Some [Assign ''__version__'' (PyStr X)]"
proof -
  let ?l = "''__version__ = '' @ quoted X"
  have cr: "CR \<notin> set (?l @ [LF])"
    using assms(4) by (simp add: quoted_def)
  have lf: "LF \<notin> set ?l"
    using assms(3) by (simp add: quoted_def)
  have nul: "NUL \<notin> set (?l @ [LF])"
    using assms(5) by (simp add: quoted_def)
  have blank: "parse_line [] = Some []"
    by (simp add: parse_line_def)
  have "parse_module (?l @ [LF]) = parse_lines (split_lines (?l @ [LF]))"
    unfolding parse_module_def using nul universal_newlines_id [OF cr] by simp
  also have "\<dots> = parse_lines [?l, []]"
    using split_lines_line [OF lf] by simp
  also have "\<dots> = Some [Assign ''__version__'' (PyStr X)]"
    using parse_line_version_line [OF assms(1,2)] blank by simp
  finally show ?thesis
    by simp
qed

corollary load_version_version_line:
  assumes "files w (version_file file) = Some (''__version__ = '' @ quoted X @ [LF])"
    and "dq \<notin> set X" and "backslash \<notin> set X"
    and "LF \<notin> set X" and "CR \<notin> set X" and "NUL \<notin> set X"
  shows "load_version py_exec file w = (Inr (PyStr X), w)"
  using load_version_py_exec [OF assms(1) parse_module_version_line [OF assms(2-6)]]
  by (simp add: getitem_def)

subsection \<open>The example tree\<close>

lemma str_replace_PKG_NAME: "str_replace ''-'' ''_'' PKG_NAME = ''mlserver_mlflow''"
  unfolding PKG_NAME_def by (simp add: str_replace.simps)

lemma version_file_pkg: "version_file ''/pkg/setup.py'' = ''/pkg/mlserver_mlflow/version.py''"
  by (simp add: PKG_PATH_def ROOT_PATH_def os_path_dirname_def str_replace_PKG_NAME os_path_join_def)

lemma readme_file_pkg: "readme_file ''/pkg/setup.py'' = ''/pkg/README.md''"
  by (simp add: ROOT_PATH_def os_path_dirname_def os_path_join_def)

lemmas tokenizer_defs = parse_module_def parse_line_def idle_step_def is_space_def is_digit_def
  is_ident_start_def is_ident_char_def is_op_def reserved_def quoted_def call_suffix_def
  environ_prefix_def digit_val_def

lemma registered_pkg_world: "registered (pkg_world a b) = []"
  by (simp add: pkg_world_def)

lemma parse_version_123:
  "parse_module (''__version__ = '' @ quoted ''1.2.3'') = Some [Assign ''__version__'' (PyStr ''1.2.3'')]"
  by (simp add: tokenizer_defs)

lemma parse_version_spaced:
  "parse_module (''__version__ = '' @ quoted '' V1.2-Rc '' @ [LF]) =
     Some [Assign ''__version__'' (PyStr '' V1.2-Rc '')]"
  by (simp add: tokenizer_defs)

lemma parse_other_name:
  "parse_module (''version = '' @ quoted ''1.2.3'' @ [LF]) = Some [Assign ''version'' (PyStr ''1.2.3'')]"
  by (simp add: tokenizer_defs)

lemma parse_version_int:
  "parse_module (''__version__ = 123'') = Some [Assign ''__version__'' (PyInt 123)]"
  by (simp add: tokenizer_defs)



lemma parse_environ_unimported:
  "parse_module (''version = os.environ['' @ quoted ''MLSERVER_VERSION'' @ '']'' @ [LF]) =
     Some [AssignEnviron ''version'' ''MLSERVER_VERSION'']"
  by (simp add: tokenizer_defs)

subsection \<open>The claims\<close>

text \<open>
  C1. In the tree \<open>/pkg\<close> whose version file is \<open>__version__ = "1.2.3"\<close> and whose
  README is \<open>Hello\<close>, the script ends normally and the build subsystem has received
  exactly one declaration, with name \<open>mlserver-mlflow\<close>, version \<open>"1.2.3"\<close>,
  long description \<open>Hello\<close> and dependencies \<open>["mlserver", "mlflow"]\<close>.
\<close>

theorem setup_py_example:
  "setup_py py_exec find_packages ''/pkg/setup.py''
     (pkg_world (''__version__ = '' @ quoted ''1.2.3'') ''Hello'') =
   (Inr (),
    (pkg_world (''__version__ = '' @ quoted ''1.2.3'') ''Hello'')
      \<lparr>registered :=
         [\<lparr>name = ''mlserver-mlflow'',
           version = PyStr ''1.2.3'',
           url = ''https://github.com/SeldonIO/MLServer.git'',
           author = ''Seldon Technologies Ltd.'',
           author_email = ''hello@seldon.io'',
           description = ''MLflow runtime for MLServer'',
           packages =
             find_packages (files (pkg_world (''__version__ = '' @ quoted ''1.2.3'') ''Hello'')),
           install_requires = [''mlserver'', ''mlflow''],
           long_description = ''Hello'',
           long_description_content_type = ''text/markdown'',
           license = ''Apache 2.0''\<rparr>]\<rparr>)"
proof -
  let ?w = "pkg_world (''__version__ = '' @ quoted ''1.2.3'') ''Hello''"
  have v: "files ?w (version_file ''/pkg/setup.py'') = Some (''__version__ = '' @ quoted ''1.2.3'')"
    by (simp add: version_file_pkg pkg_world_def)
  have r: "files ?w (readme_file ''/pkg/setup.py'') = Some ''Hello''"
    by (simp add: readme_file_pkg pkg_world_def)
  have lv: "load_version py_exec ''/pkg/setup.py'' ?w = (Inr (PyStr ''1.2.3''), ?w)"
    using load_version_py_exec [OF v parse_version_123] by (simp add: getitem_def)
  have ld: "load_description ''/pkg/setup.py'' ?w = (Inr ''Hello'', ?w)"
    using load_description_found [OF r] by simp
  show ?thesis
    using lv ld
    by (simp add: setup_py_def assemble_def setuptools_setup_def PKG_NAME_def
        registered_pkg_world)
qed

text \<open>
  C2. When the version file exists and executing its text, as \<open>_load_version\<close> executes
  it (into a dictionary that starts empty), binds \<open>__version__\<close> to the string \<open>X\<close>,
  \<open>_load_version\<close> returns exactly \<open>X\<close>, no character trimmed or changed, and leaves
  the world as \<open>exec\<close> left it, with the file closed. This holds whatever \<open>exec\<close>
  does, so for every text Python executes.
\<close>

theorem load_version_returns_bound_string:
  assumes "files w (version_file file) = Some s"
    and "ex (universal_newlines s) Map.empty (w\<lparr>open_handles := Suc (open_handles w)\<rparr>) = (Inr g, w2)"
    and "g ''__version__'' = Some (PyStr X)"
  shows "load_version ex file w = (Inr (PyStr X), py_close (TextIO (version_file file) s) w2)"
  using load_version_found [where ex = ex, OF assms(1,2)] assms(3) by (simp add: getitem_def)

theorem load_version_returns_bound_string_witness:
  "files (pkg_world (''__version__ = '' @ quoted '' V1.2-Rc '' @ [LF]) []) (version_file ''/pkg/setup.py'') =
     Some (''__version__ = '' @ quoted '' V1.2-Rc '' @ [LF]) \<and>
   py_exec (universal_newlines (''__version__ = '' @ quoted '' V1.2-Rc '' @ [LF])) Map.empty
       ((pkg_world (''__version__ = '' @ quoted '' V1.2-Rc '' @ [LF]) [])\<lparr>open_handles := 1\<rparr>) =
     (Inr [''__builtins__'' \<mapsto> PyBuiltins, ''__version__'' \<mapsto> PyStr '' V1.2-Rc ''],
      (pkg_world (''__version__ = '' @ quoted '' V1.2-Rc '' @ [LF]) [])\<lparr>open_handles := 1\<rparr>) \<and>
   load_version py_exec ''/pkg/setup.py'' (pkg_world (''__version__ = '' @ quoted '' V1.2-Rc '' @ [LF]) []) =
     (Inr (PyStr '' V1.2-Rc ''), pkg_world (''__version__ = '' @ quoted '' V1.2-Rc '' @ [LF]) [])"
proof -
  let ?t = "''__version__ = '' @ quoted '' V1.2-Rc '' @ [LF]"
  let ?w = "pkg_world ?t []"
  let ?w1 = "?w\<lparr>open_handles := Suc (open_handles ?w)\<rparr>"
  let ?g = "[''__builtins__'' \<mapsto> PyBuiltins, ''__version__'' \<mapsto> PyStr '' V1.2-Rc '']"
  have f: "files ?w (version_file ''/pkg/setup.py'') = Some ?t"
    by (simp add: version_file_pkg pkg_world_def)
  have p: "parse_module (universal_newlines ?t) = Some [Assign ''__version__'' (PyStr '' V1.2-Rc '')]"
    using parse_version_spaced by (simp only: parse_module_read)
  have e: "py_exec (universal_newlines ?t) Map.empty ?w1 = (Inr ?g, ?w1)"
    using py_exec_parsed [OF p, of ?w1] by simp
  have b: "?g ''__version__'' = Some (PyStr '' V1.2-Rc '')"
    by simp
  have h: "open_handles ?w = 0"
    by (simp add: pkg_world_def)
  show ?thesis
    using f e h
      load_version_returns_bound_string [where ex = py_exec and g = "?g", OF f e b]
    by (simp add: py_close_def)
qed

text \<open>
  C3, as stated, fails: the version file \<open>version = os.environ["MLSERVER_VERSION"]\<close>
  exists, is one assignment statement and does not bind \<open>__version__\<close>, yet
  \<open>_load_version\<close> does not fail with \<open>KeyError\<close>: the right-hand side cannot be
  evaluated, \<open>os\<close> being unbound in the fresh dictionary, and the \<open>NameError\<close>
  propagates.
\<close>

theorem load_version_name_error_counterexample:
  "files (pkg_world (''version = os.environ['' @ quoted ''MLSERVER_VERSION'' @ '']'' @ [LF]) ''Hello'')
       (version_file ''/pkg/setup.py'') =
     Some (''version = os.environ['' @ quoted ''MLSERVER_VERSION'' @ '']'' @ [LF]) \<and>
   parse_module (''version = os.environ['' @ quoted ''MLSERVER_VERSION'' @ '']'' @ [LF]) =
     Some [AssignEnviron ''version'' ''MLSERVER_VERSION''] \<and>
   load_version py_exec ''/pkg/setup.py''
       (pkg_world (''version = os.environ['' @ quoted ''MLSERVER_VERSION'' @ '']'' @ [LF]) ''Hello'') =
     (Inl (NameError ''os''),
      pkg_world (''version = os.environ['' @ quoted ''MLSERVER_VERSION'' @ '']'' @ [LF]) ''Hello'') \<and>
   fst (load_version py_exec ''/pkg/setup.py''
       (pkg_world (''version = os.environ['' @ quoted ''MLSERVER_VERSION'' @ '']'' @ [LF]) ''Hello'')) \<noteq>
     Inl (KeyError ''__version__'')"
proof -
  let ?t = "''version = os.environ['' @ quoted ''MLSERVER_VERSION'' @ '']'' @ [LF]"
  let ?w = "pkg_world ?t ''Hello''"
  have f: "files ?w (version_file ''/pkg/setup.py'') = Some ?t"
    by (simp add: version_file_pkg pkg_world_def)
  have lv: "load_version py_exec ''/pkg/setup.py'' ?w = (Inl (NameError ''os''), ?w)"
    using load_version_py_exec [OF f parse_environ_unimported] by simp
  show ?thesis
    using f parse_environ_unimported lv by simp
qed

text \<open>
  C3, amended. When the version file exists and executing its text completes without an
  exception and leaves \<open>__version__\<close> unbound, \<open>_load_version\<close> raises \<open>KeyError\<close>
  for that key. When executing the text raises, \<open>_load_version\<close> raises that exception
  instead. In both cases no value is returned and the file is closed. This holds whatever
  \<open>exec\<close> does.
\<close>

theorem load_version_unbound:
  assumes "files w (version_file file) = Some s"
    and "ex (universal_newlines s) Map.empty (w\<lparr>open_handles := Suc (open_handles w)\<rparr>) = (r, w2)"
  shows "(r = Inr g \<and> g ''__version__'' = None \<longrightarrow>
            load_version ex file w =
              (Inl (KeyError ''__version__''), py_close (TextIO (version_file file) s) w2)) \<and>
         (r = Inl e \<longrightarrow>
            load_version ex file w = (Inl e, py_close (TextIO (version_file file) s) w2))"
  using load_version_found [where ex = ex, OF assms] by (simp add: getitem_def)

theorem load_version_unbound_witness:
  "files (pkg_world (''version = '' @ quoted ''1.2.3'' @ [LF]) []) (version_file ''/pkg/setup.py'') =
     Some (''version = '' @ quoted ''1.2.3'' @ [LF]) \<and>
   py_exec (universal_newlines (''version = '' @ quoted ''1.2.3'' @ [LF])) Map.empty
       ((pkg_world (''version = '' @ quoted ''1.2.3'' @ [LF]) [])\<lparr>open_handles := 1\<rparr>) =
     (Inr [''__builtins__'' \<mapsto> PyBuiltins, ''version'' \<mapsto> PyStr ''1.2.3''],
      (pkg_world (''version = '' @ quoted ''1.2.3'' @ [LF]) [])\<lparr>open_handles := 1\<rparr>) \<and>
   load_version py_exec ''/pkg/setup.py'' (pkg_world (''version = '' @ quoted ''1.2.3'' @ [LF]) []) =
     (Inl (KeyError ''__version__''), pkg_world (''version = '' @ quoted ''1.2.3'' @ [LF]) []) \<and>
   files (pkg_world (''version = os.environ['' @ quoted ''MLSERVER_VERSION'' @ '']'' @ [LF]) [])
       (version_file ''/pkg/setup.py'') =
     Some (''version = os.environ['' @ quoted ''MLSERVER_VERSION'' @ '']'' @ [LF]) \<and>
   py_exec (universal_newlines (''version = os.environ['' @ quoted ''MLSERVER_VERSION'' @ '']'' @ [LF]))
       Map.empty
       ((pkg_world (''version = os.environ['' @ quoted ''MLSERVER_VERSION'' @ '']'' @ [LF]) [])
          \<lparr>open_handles := 1\<rparr>) =
     (Inl (NameError ''os''),
      (pkg_world (''version = os.environ['' @ quoted ''MLSERVER_VERSION'' @ '']'' @ [LF]) [])
        \<lparr>open_handles := 1\<rparr>) \<and>
   load_version py_exec ''/pkg/setup.py''
       (pkg_world (''version = os.environ['' @ quoted ''MLSERVER_VERSION'' @ '']'' @ [LF]) []) =
     (Inl (NameError ''os''),
      pkg_world (''version = os.environ['' @ quoted ''MLSERVER_VERSION'' @ '']'' @ [LF]) [])"
proof -
  let ?t = "''version = '' @ quoted ''1.2.3'' @ [LF]"
  let ?w = "pkg_world ?t []"
  let ?w1 = "?w\<lparr>open_handles := Suc (open_handles ?w)\<rparr>"
  let ?g = "[''__builtins__'' \<mapsto> PyBuiltins, ''version'' \<mapsto> PyStr ''1.2.3'']"
  let ?u = "''version = os.environ['' @ quoted ''MLSERVER_VERSION'' @ '']'' @ [LF]"
  let ?x = "pkg_world ?u []"
  let ?x1 = "?x\<lparr>open_handles := Suc (open_handles ?x)\<rparr>"
  have f: "files ?w (version_file ''/pkg/setup.py'') = Some ?t"
    by (simp add: version_file_pkg pkg_world_def)
  have p: "parse_module (universal_newlines ?t) = Some [Assign ''version'' (PyStr ''1.2.3'')]"
    using parse_other_name by (simp only: parse_module_read)
  have e: "py_exec (universal_newlines ?t) Map.empty ?w1 = (Inr ?g, ?w1)"
    using py_exec_parsed [OF p, of ?w1] by simp
  have h: "open_handles ?w = 0"
    by (simp add: pkg_world_def)
  have first: "load_version py_exec ''/pkg/setup.py'' ?w = (Inl (KeyError ''__version__''), ?w)"
    using load_version_unbound [where ex = py_exec and g = "?g", OF f e]
    by (simp add: py_close_def)
  have f': "files ?x (version_file ''/pkg/setup.py'') = Some ?u"
    by (simp add: version_file_pkg pkg_world_def)
  have p': "parse_module (universal_newlines ?u) = Some [AssignEnviron ''version'' ''MLSERVER_VERSION'']"
    using parse_environ_unimported by (simp only: parse_module_read)
  have e': "py_exec (universal_newlines ?u) Map.empty ?x1 = (Inl (NameError ''os''), ?x1)"
    using py_exec_parsed [OF p', of ?x1] by simp
  have h': "open_handles ?x = 0"
    by (simp add: pkg_world_def)
  have second: "load_version py_exec ''/pkg/setup.py'' ?x = (Inl (NameError ''os''), ?x)"
    using load_version_unbound [where ex = py_exec and e = "NameError ''os''", OF f' e']
    by (simp add: py_close_def)
  show ?thesis
    using f e h first f' e' h' second by simp
qed

text \<open>
  C4. When the version file is absent, \<open>_load_version\<close> raises
  \<open>FileNotFoundError\<close> for that path, whatever \<open>exec\<close> would do, and the world is as
  before.
\<close>

theorem load_version_missing_file:
  assumes "files w (version_file file) = None"
  shows "load_version ex file w = (Inl (FileNotFoundError (version_file file)), w)"
  unfolding load_version_def by (rule load_version_from_missing [OF assms])

theorem load_version_missing_file_witness:
  "files bare_world (version_file ''/pkg/setup.py'') = None \<and>
   load_version py_exec ''/pkg/setup.py'' bare_world =
     (Inl (FileNotFoundError ''/pkg/mlserver_mlflow/version.py''), bare_world)"
proof -
  have h: "files bare_world (version_file ''/pkg/setup.py'') = None"
    by (simp add: bare_world_def)
  show ?thesis
    using h load_version_missing_file [OF h, of py_exec] by (simp add: version_file_pkg)
qed

text \<open>
  C5, as stated, fails: a README stored with a \<open>\r\n\<close> line break is returned with
  \<open>\n\<close>, so the result is not the stored text.
\<close>

theorem load_description_crlf_counterexample:
  "files (pkg_world [] [CHR ''a'', CR, LF, CHR ''b'']) (readme_file ''/pkg/setup.py'') =
     Some [CHR ''a'', CR, LF, CHR ''b''] \<and>
   fst (load_description ''/pkg/setup.py'' (pkg_world [] [CHR ''a'', CR, LF, CHR ''b''])) =
     Inr [CHR ''a'', LF, CHR ''b''] \<and>
   fst (load_description ''/pkg/setup.py'' (pkg_world [] [CHR ''a'', CR, LF, CHR ''b''])) \<noteq>
     Inr [CHR ''a'', CR, LF, CHR ''b'']"
proof -
  have r: "files (pkg_world [] [CHR ''a'', CR, LF, CHR ''b'']) (readme_file ''/pkg/setup.py'') =
     Some [CHR ''a'', CR, LF, CHR ''b'']"
    by (simp add: readme_file_pkg pkg_world_def)
  show ?thesis
    using r load_description_found [OF r] by simp
qed

text \<open>
  C5, amended. \<open>_load_description\<close> returns the README as universal-newlines mode
  delivers it, every \<open>\r\n\<close> and lone \<open>\r\<close> arriving as \<open>\n\<close>; a README without
  a carriage return is returned unchanged, line feeds and a trailing newline (or its
  absence) included. The world is as before.
\<close>

theorem load_description_universal_newlines:
  assumes "files w (readme_file file) = Some s"
  shows "load_description file w = (Inr (universal_newlines s), w) \<and>
         (CR \<notin> set s \<longrightarrow> load_description file w = (Inr s, w))"
  by (simp add: load_description_found [OF assms] universal_newlines_id)

theorem load_description_universal_newlines_witness:
  "files (pkg_world [] (''Hello'' @ [LF])) (readme_file ''/pkg/setup.py'') = Some (''Hello'' @ [LF]) \<and>
   load_description ''/pkg/setup.py'' (pkg_world [] (''Hello'' @ [LF])) =
     (Inr (''Hello'' @ [LF]), pkg_world [] (''Hello'' @ [LF]))"
proof -
  have r: "files (pkg_world [] (''Hello'' @ [LF])) (readme_file ''/pkg/setup.py'') =
     Some (''Hello'' @ [LF])"
    by (simp add: readme_file_pkg pkg_world_def)
  show ?thesis
    using r load_description_universal_newlines [OF r] by simp
qed

text \<open>
  C6. If \<open>_load_version\<close> raises, or it returns and \<open>_load_description\<close> raises, the
  script ends with that exception, and the world it leaves is the one the version resolver
  left: the call to \<open>setup\<close> has not run, whatever \<open>exec\<close> and \<open>find_packages\<close> do.
\<close>

theorem setup_py_fails_fast:
  assumes "fst (load_version ex file w) = Inl e \<or>
           (\<exists>v w1. load_version ex file w = (Inr v, w1) \<and>
                    fst (load_description file w1) = Inl e)"
  shows "fst (setup_py ex find_packages file w) = Inl e \<and>
         snd (setup_py ex find_packages file w) = snd (load_version ex file w)"
  using assms
proof
  assume "fst (load_version ex file w) = Inl e"
  then obtain w1 where "load_version ex file w = (Inl e, w1)"
    by (cases "load_version ex file w") simp
  then show ?thesis
    by (simp add: setup_py_def assemble_def)
next
  assume "\<exists>v w1. load_version ex file w = (Inr v, w1) \<and> fst (load_description file w1) = Inl e"
  then obtain v w1 where lv: "load_version ex file w = (Inr v, w1)"
    and ld: "fst (load_description file w1) = Inl e"
    by blast
  show ?thesis
    by (simp add: setup_py_def assemble_def lv load_description_failure_world [OF ld])
qed

theorem setup_py_fails_fast_witness:
  "setup_py py_exec (\<lambda>f. []) ''/pkg/setup.py'' bare_world =
     (Inl (FileNotFoundError ''/pkg/mlserver_mlflow/version.py''), bare_world) \<and>
   registered bare_world = [] \<and>
   setup_py py_exec (\<lambda>f. []) ''/pkg/setup.py''
       (without_readme (pkg_world (''__version__ = '' @ quoted ''1.2.3'') ''Hello'')) =
     (Inl (FileNotFoundError ''/pkg/README.md''),
      without_readme (pkg_world (''__version__ = '' @ quoted ''1.2.3'') ''Hello'')) \<and>
   registered (without_readme (pkg_world (''__version__ = '' @ quoted ''1.2.3'') ''Hello'')) = []"
proof -
  let ?f = "''/pkg/setup.py''"
  let ?w = "without_readme (pkg_world (''__version__ = '' @ quoted ''1.2.3'') ''Hello'')"
  have h: "files bare_world (version_file ?f) = None"
    by (simp add: bare_world_def)
  have lv: "load_version py_exec ?f bare_world =
      (Inl (FileNotFoundError ''/pkg/mlserver_mlflow/version.py''), bare_world)"
    using load_version_from_missing [OF h, of "PyStr []" py_exec]
    by (simp add: load_version_def version_file_pkg)
  have a: "fst (load_version py_exec ?f bare_world) =
      Inl (FileNotFoundError ''/pkg/mlserver_mlflow/version.py'') \<or>
    (\<exists>v w1. load_version py_exec ?f bare_world = (Inr v, w1) \<and>
       fst (load_description ?f w1) = Inl (FileNotFoundError ''/pkg/mlserver_mlflow/version.py''))"
    by (simp add: lv)
  have first: "setup_py py_exec (\<lambda>f. []) ?f bare_world =
      (Inl (FileNotFoundError ''/pkg/mlserver_mlflow/version.py''), bare_world)"
    using lv setup_py_fails_fast [OF a, of "\<lambda>f. []"] by (simp add: prod_eq_iff)
  have v: "files ?w (version_file ?f) = Some (''__version__ = '' @ quoted ''1.2.3'')"
    by (simp add: version_file_pkg pkg_world_def without_readme_def)
  have r: "files ?w (readme_file ?f) = None"
    by (simp add: readme_file_pkg without_readme_def)
  have lv2: "load_version py_exec ?f ?w = (Inr (PyStr ''1.2.3''), ?w)"
    using load_version_py_exec [OF v parse_version_123] by (simp add: getitem_def)
  have ld2: "fst (load_description ?f ?w) = Inl (FileNotFoundError ''/pkg/README.md'')"
    using load_description_missing [OF r] by (simp add: readme_file_pkg)
  have b: "fst (load_version py_exec ?f ?w) = Inl (FileNotFoundError ''/pkg/README.md'') \<or>
    (\<exists>v w1. load_version py_exec ?f ?w = (Inr v, w1) \<and>
       fst (load_description ?f w1) = Inl (FileNotFoundError ''/pkg/README.md''))"
    using lv2 ld2 by blast
  have second: "setup_py py_exec (\<lambda>f. []) ?f ?w = (Inl (FileNotFoundError ''/pkg/README.md''), ?w)"
    using lv2 setup_py_fails_fast [OF b, of "\<lambda>f. []"] by (simp add: prod_eq_iff)
  show ?thesis
    using first second by (simp add: bare_world_def without_readme_def registered_pkg_world)
qed







text \<open>
  C9. Whatever object the executed version file leaves under \<open>__version__\<close>, a string
  or not, \<open>_load_version\<close> returns that object: nothing checks it against the annotated
  return type.
\<close>

theorem load_version_returns_any_object:
  assumes "files w (version_file file) = Some s"
    and "ex (universal_newlines s) Map.empty (w\<lparr>open_handles := Suc (open_handles w)\<rparr>) = (Inr g, w2)"
    and "g ''__version__'' = Some v"
  shows "fst (load_version ex file w) = Inr v"
  unfolding load_version_def
  using assms(2,3) by (simp add: load_version_from_found [OF assms(1)])

theorem load_version_returns_any_object_witness:
  "fst (load_version py_exec ''/pkg/setup.py'' (pkg_world ''__version__ = 123'' [])) = Inr (PyInt 123)"
proof -
  let ?w = "pkg_world ''__version__ = 123'' []"
  let ?w1 = "?w\<lparr>open_handles := Suc (open_handles ?w)\<rparr>"
  let ?g = "[''__builtins__'' \<mapsto> PyBuiltins, ''__version__'' \<mapsto> PyInt 123]"
  have f: "files ?w (version_file ''/pkg/setup.py'') = Some ''__version__ = 123''"
    by (simp add: version_file_pkg pkg_world_def)
  have p: "parse_module (universal_newlines ''__version__ = 123'') =
      Some [Assign ''__version__'' (PyInt 123)]"
    using parse_version_int by (simp only: parse_module_read)
  have e: "py_exec (universal_newlines ''__version__ = 123'') Map.empty ?w1 = (Inr ?g, ?w1)"
    using py_exec_parsed [OF p, of ?w1] by simp
  have b: "?g ''__version__'' = Some (PyInt 123)"
    by simp
  show ?thesis
    using load_version_returns_any_object [where ex = py_exec and g = "?g", OF f e b] by simp
qed

text \<open>
  C10. Whenever \<open>_load_version\<close> returns normally, the value comes from the
  \<open>__version__\<close> entry of the dictionary the file was executed into, and the result is
  the same whatever the local \<open>version\<close> was first assigned: the empty string of the
  first line never reaches the caller.
\<close>

theorem load_version_value_from_mapping:
  assumes "load_version ex file w = (Inr v, w')"
  shows "(\<exists>s g w2. files w (version_file file) = Some s \<and>
            ex (universal_newlines s) Map.empty (w\<lparr>open_handles := Suc (open_handles w)\<rparr>) =
              (Inr g, w2) \<and>
            g ''__version__'' = Some v) \<and>
         (\<forall>d. load_version_from d ex file w = (Inr v, w'))"
proof (cases "files w (version_file file)")
  case None
  then show ?thesis
    using assms by (simp add: load_version_def load_version_from_missing)
next
  case (Some s)
  have same: "load_version_from d ex file w = load_version ex file w" for d
    by (simp add: load_version_def load_version_from_found [OF Some])
  show ?thesis
    using assms Some same
    by (auto simp: load_version_def load_version_from_found [OF Some]
        split: prod.splits sum.splits option.splits)
qed

theorem load_version_value_from_mapping_witness:
  "load_version py_exec ''/pkg/setup.py'' (pkg_world (''__version__ = '' @ quoted ''1.2.3'') ''Hello'') =
     (Inr (PyStr ''1.2.3''), pkg_world (''__version__ = '' @ quoted ''1.2.3'') ''Hello'') \<and>
   (\<exists>s g w2.
      files (pkg_world (''__version__ = '' @ quoted ''1.2.3'') ''Hello'') (version_file ''/pkg/setup.py'') =
        Some s \<and>
      py_exec (universal_newlines s) Map.empty
        ((pkg_world (''__version__ = '' @ quoted ''1.2.3'') ''Hello'')
           \<lparr>open_handles :=
              Suc (open_handles (pkg_world (''__version__ = '' @ quoted ''1.2.3'') ''Hello''))\<rparr>) =
        (Inr g, w2) \<and>
      g ''__version__'' = Some (PyStr ''1.2.3'')) \<and>
   (\<forall>d. load_version_from d py_exec ''/pkg/setup.py''
          (pkg_world (''__version__ = '' @ quoted ''1.2.3'') ''Hello'') =
        (Inr (PyStr ''1.2.3''), pkg_world (''__version__ = '' @ quoted ''1.2.3'') ''Hello''))"
proof -
  let ?w = "pkg_world (''__version__ = '' @ quoted ''1.2.3'') ''Hello''"
  have v: "files ?w (version_file ''/pkg/setup.py'') = Some (''__version__ = '' @ quoted ''1.2.3'')"
    by (simp add: version_file_pkg pkg_world_def)
  have lv: "load_version py_exec ''/pkg/setup.py'' ?w = (Inr (PyStr ''1.2.3''), ?w)"
    using load_version_py_exec [OF v parse_version_123] by (simp add: getitem_def)
  show ?thesis
    using lv load_version_value_from_mapping [OF lv] by blast
qed

end
